theory Spec2Isabelle
  imports Main
begin

section \<open>Error values\<close>

text \<open>
  A Go \<open>error\<close> is modelled by how it was built. The five package-level variables of
  \<open>internal/handler/auth.go\<close> (lines 17 to 23) are constructors of their own; an error made
  on the spot by \<open>errors.New(text)\<close> is \<open>errors_New text\<close>; \<open>fmt.Errorf(prefix + "%w", err)\<close>
  is \<open>fmt_Errorf prefix err\<close> and keeps the wrapped error; \<open>foreign text\<close> is an error that
  comes out of a collaborator (database/sql, bcrypt, the JWT manager) with its message.
  \<open>nil\<close> is \<open>None\<close> of \<open>error option\<close>.
\<close>

datatype error =
    ErrInvalidCredentials
  | ErrInvalidToken
  | ErrMissingMetadata
  | ErrNoAuthToken
  | ErrInvalidTokenClaims
  | errors_New string
  | fmt_Errorf string error
  | foreign string

text \<open>The method \<open>Error()\<close>: the message a caller reads.\<close>

fun Error :: "error \<Rightarrow> string" where
  "Error ErrInvalidCredentials = ''invalid username or password''"
| "Error ErrInvalidToken = ''invalid or expired token''"
| "Error ErrMissingMetadata = ''missing metadata''"
| "Error ErrNoAuthToken = ''authorization token not provided''"
| "Error ErrInvalidTokenClaims = ''invalid token claims''"
| "Error (errors_New text) = text"
| "Error (fmt_Errorf prefix err) = prefix @ Error err"
| "Error (foreign text) = text"

section \<open>Collaborators\<close>

subsection \<open>golang.org/x/crypto/bcrypt\<close>

text \<open>
  The bcrypt package is a third-party library: the handler only calls it. It is a parameter
  of the model, a record of the two functions and the constant the handler uses.
  \<open>GenerateFromPassword password cost\<close> is \<open>Inl err\<close> or \<open>Inr hash\<close>;
  \<open>CompareHashAndPassword hash password\<close> is \<open>None\<close> (nil) when they match.
\<close>

record bcrypt =
  DefaultCost :: nat
  GenerateFromPassword :: "string \<Rightarrow> nat \<Rightarrow> error + string"
  CompareHashAndPassword :: "string \<Rightarrow> string \<Rightarrow> error option"

subsection \<open>context.Context and grpc metadata\<close>

text \<open>
  \<open>metadata.MD\<close> is \<open>map[string][]string\<close>. Of a context the handler reads the incoming
  metadata; the store may read \<open>ctx.Err()\<close> (cancellation, deadline).
\<close>

type_synonym MD = "string \<Rightarrow> string list option"

record Context =
  Err :: "error option"
  incomingMD :: "MD option"

definition Background :: Context where
  "Background = \<lparr>Err = None, incomingMD = None\<rparr>"

definition FromIncomingContext :: "Context \<Rightarrow> MD \<times> bool" where
  "FromIncomingContext ctx =
     (case incomingMD ctx of None \<Rightarrow> (Map.empty, False) | Some md \<Rightarrow> (md, True))"

text \<open>Indexing a Go map: an absent key gives the zero value, here the nil slice.\<close>

definition md_index :: "MD \<Rightarrow> string \<Rightarrow> string list" where
  "md_index md key = (case md key of None \<Rightarrow> [] | Some values \<Rightarrow> values)"

subsection \<open>database/sql\<close>

text \<open>
  The store is external. The handler runs two statements, each with one argument, and
  scans the first row: a field of \<open>sql_DB\<close> is the outcome of
  \<open>QueryRowContext(ctx, query, arg).Scan(...)\<close> for one of them, \<open>Inl err\<close> when the query
  or the scan fails (no row, driver error, cancelled context).
  \<open>selectIdPassword\<close> is \<open>SELECT id, password FROM users WHERE username=$1\<close>,
  \<open>selectUsername\<close> is \<open>SELECT username FROM users WHERE id=$1\<close>.
  \<open>QueryRow(query, arg)\<close> is \<open>QueryRowContext(context.Background(), query, arg)\<close>.
\<close>

record sql_DB =
  selectIdPassword :: "Context \<Rightarrow> string \<Rightarrow> error + string \<times> string"
  selectUsername :: "Context \<Rightarrow> string \<Rightarrow> error + string"

subsection \<open>github.com/golang-jwt/jwt/v5\<close>

text \<open>
  A value of type \<open>interface{}\<close> as JSON decoding produces it (a number is kept as an
  integer: the handler reads none), and the \<open>jwt.Claims\<close> a token carries:
  \<open>jwt.MapClaims\<close> (a \<open>map[string]interface{}\<close>) or another implementation. The type
  assertions \<open>x.(T)\<close> of the handler return the value, or the zero value, and \<open>ok\<close>.
\<close>

datatype any =
    go_nil
  | go_bool bool
  | go_float64 int
  | go_string string
  | go_slice "any list"

datatype jwt_Claims =
    MapClaims "string \<Rightarrow> any option"
  | OtherClaims

record jwt_Token =
  Raw :: string
  Claims :: jwt_Claims
  Valid :: bool

definition assert_MapClaims :: "jwt_Claims \<Rightarrow> (string \<Rightarrow> any option) \<times> bool" where
  "assert_MapClaims c = (case c of MapClaims m \<Rightarrow> (m, True) | OtherClaims \<Rightarrow> (Map.empty, False))"

definition claims_index :: "(string \<Rightarrow> any option) \<Rightarrow> string \<Rightarrow> any" where
  "claims_index claims key = (case claims key of None \<Rightarrow> go_nil | Some v \<Rightarrow> v)"

definition assert_string :: "any \<Rightarrow> string \<times> bool" where
  "assert_string v = (case v of go_string s \<Rightarrow> (s, True) | _ \<Rightarrow> ('''', False))"

subsection \<open>The JWT manager\<close>

text \<open>
  Modelled from the spec: \<open>internal/auth/jwt_manager.go\<close> (type \<open>auth.JWTManager\<close>) is not
  among the sources. The spec (section 4.2) gives it two operations, which are the two the
  handler calls: \<open>Generate(subject_id) -> (token, error)\<close> and
  \<open>Verify(token) -> (claims, error)\<close>, the latter failing with \<open>TokenInvalid\<close> when the
  signature or the structural parse fails and with \<open>TokenExpired\<close> when the signature is
  valid but the time check fails. The manager is a field of the handler, so the model takes
  it as a record of these two functions; an error makes the result \<open>Inl\<close>.
\<close>

record JWTManager =
  Generate :: "string \<Rightarrow> error + string"
  Verify :: "string \<Rightarrow> error + jwt_Token"

text \<open>
  Modelled from the spec: the two typed failures of \<open>Verify\<close> (section 3, AuthFailure),
  whose Go values are declared in the missing \<open>jwt_manager.go\<close>. They are errors of a
  collaborator, told apart by the spec's names.
\<close>

definition TokenInvalid :: error where
  "TokenInvalid = foreign ''TokenInvalid''"

definition TokenExpired :: error where
  "TokenExpired = foreign ''TokenExpired''"

section \<open>The handler of internal/handler/auth.go\<close>

text \<open>
  A handler holds its two collaborators, as \<open>NewAuthHandler\<close> builds it. Both are there:
  a handler with a nil \<open>db\<close> or \<open>jwtManager\<close> panics at the first use of the field and
  is not a value of this record. The request messages are the generated \<open>pb\<close> types;
  \<open>GetUserProfile\<close> reads nothing of its request, whose type is left open.
\<close>

record AuthHandler =
  db :: sql_DB
  jwtManager :: JWTManager

record LoginRequest =
  Username :: string
  Password :: string

record LoginResponse =
  AccessToken :: string

record GetUserProfileResponse =
  UserId :: string
  profile_Username :: string

text \<open>
  What a handler does besides returning: the calls it makes to the store and to the JWT
  manager, and the lines it logs, in order.
\<close>

datatype event =
    LogPrintf string
  | DbQuery string string
  | JwtGenerate string
  | JwtVerify string

definition hashPassword :: "bcrypt \<Rightarrow> string \<Rightarrow> error + string" where
  "hashPassword bc password =
     (case GenerateFromPassword bc password (DefaultCost bc) of
        Inl err \<Rightarrow> Inl (fmt_Errorf ''failed to hash password: '' err)
      | Inr hashedPassword \<Rightarrow> Inr hashedPassword)"

definition checkPassword :: "bcrypt \<Rightarrow> string \<Rightarrow> string \<Rightarrow> error option" where
  "checkPassword bc hashedPassword password =
     (case CompareHashAndPassword bc hashedPassword password of
        Some err \<Rightarrow> Some ErrInvalidCredentials
      | None \<Rightarrow> None)"

text \<open>
  \<open>Login\<close> and \<open>GetUserProfile\<close> return Go's pair \<open>(response, error)\<close>, each component
  \<open>None\<close> for nil, and the events of the run.
\<close>

definition Login ::
  "bcrypt \<Rightarrow> AuthHandler \<Rightarrow> Context \<Rightarrow> LoginRequest
     \<Rightarrow> (LoginResponse option \<times> error option) \<times> event list" where
  "Login bc h ctx req =
     (let query = ''SELECT id, password FROM users WHERE username=$1'' in
      case selectIdPassword (db h) ctx (Username req) of
        Inl err \<Rightarrow>
          ((None, Some ErrInvalidCredentials),
           [DbQuery query (Username req),
            LogPrintf (''Login failed for user '' @ Username req @ '': '' @ Error err)])
      | Inr (userID, hashedPassword) \<Rightarrow>
          (case checkPassword bc hashedPassword (Password req) of
             Some err \<Rightarrow> ((None, Some err), [DbQuery query (Username req)])
           | None \<Rightarrow>
               (case Generate (jwtManager h) userID of
                  Inl err \<Rightarrow>
                    ((None, Some (fmt_Errorf ''failed to generate token: '' err)),
                     [DbQuery query (Username req), JwtGenerate userID,
                      LogPrintf (''Failed to generate token for user '' @ userID @ '': ''
                                 @ Error err)])
                | Inr token \<Rightarrow>
                    ((Some \<lparr>AccessToken = token\<rparr>, None),
                     [DbQuery query (Username req), JwtGenerate userID]))))"

definition validateToken :: "AuthHandler \<Rightarrow> string \<Rightarrow> (error + jwt_Token) \<times> event list" where
  "validateToken h tokenString =
     (case Verify (jwtManager h) tokenString of
        Inl err \<Rightarrow> (Inl ErrInvalidToken, [JwtVerify tokenString])
      | Inr token \<Rightarrow> (Inr token, [JwtVerify tokenString]))"

definition extractTokenFromMetadata :: "Context \<Rightarrow> error + string" where
  "extractTokenFromMetadata ctx =
     (case FromIncomingContext ctx of
        (md, ok) \<Rightarrow>
          if \<not> ok then Inl ErrMissingMetadata
          else let tokens = md_index md ''authorization'' in
            if length tokens = 0 then Inl ErrNoAuthToken
            else Inr (tokens ! 0))"

definition GetUserProfile ::
  "AuthHandler \<Rightarrow> Context \<Rightarrow> 'req
     \<Rightarrow> (GetUserProfileResponse option \<times> error option) \<times> event list" where
  "GetUserProfile h ctx req =
     (case extractTokenFromMetadata ctx of
        Inl err \<Rightarrow> ((None, Some err), [])
      | Inr tokenString \<Rightarrow>
          (case validateToken h tokenString of
             (Inl err, evs) \<Rightarrow> ((None, Some err), evs)
           | (Inr token, evs) \<Rightarrow>
               (case assert_MapClaims (Claims token) of
                  (claims, ok) \<Rightarrow>
                    if \<not> ok \<or> \<not> Valid token then ((None, Some ErrInvalidTokenClaims), evs)
                    else
                      (case assert_string (claims_index claims ''user_id'') of
                         (userID, ok) \<Rightarrow>
                           if \<not> ok then ((None, Some ErrInvalidTokenClaims), evs)
                           else
                             (let query = ''SELECT username FROM users WHERE id=$1'' in
                              case selectUsername (db h) ctx userID of
                                Inl err \<Rightarrow>
                                  ((None,
                                    Some (fmt_Errorf ''failed to retrieve user profile: '' err)),
                                   evs @ [DbQuery query userID])
                              | Inr username \<Rightarrow>
                                  ((Some \<lparr>UserId = userID, profile_Username = username\<rparr>,
                                    None),
                                   evs @ [DbQuery query userID]))))))"

section \<open>The second handler file (src/unnamed/part_002)\<close>

text \<open>
  The repository holds a second copy of the handler. Its \<open>checkPassword\<close> builds its own
  error, and its \<open>Login\<close> queries with \<open>QueryRow\<close> (no request context), wraps the store's
  error and logs nothing.
\<close>

definition checkPassword_part002 :: "bcrypt \<Rightarrow> string \<Rightarrow> string \<Rightarrow> error option" where
  "checkPassword_part002 bc hashedPassword password =
     (case CompareHashAndPassword bc hashedPassword password of
        Some err \<Rightarrow> Some (errors_New ''invalid credentials'')
      | None \<Rightarrow> None)"

definition Login_part002 ::
  "bcrypt \<Rightarrow> AuthHandler \<Rightarrow> Context \<Rightarrow> LoginRequest
     \<Rightarrow> (LoginResponse option \<times> error option) \<times> event list" where
  "Login_part002 bc h ctx req =
     (let query = ''SELECT id, password FROM users WHERE username=$1'' in
      case selectIdPassword (db h) Background (Username req) of
        Inl err \<Rightarrow>
          ((None, Some (fmt_Errorf ''invalid username or password: '' err)),
           [DbQuery query (Username req)])
      | Inr (userID, hashedPassword) \<Rightarrow>
          (case checkPassword_part002 bc hashedPassword (Password req) of
             Some err \<Rightarrow> ((None, Some err), [DbQuery query (Username req)])
           | None \<Rightarrow>
               (case Generate (jwtManager h) userID of
                  Inl err \<Rightarrow>
                    ((None, Some (fmt_Errorf ''failed to generate token: '' err)),
                     [DbQuery query (Username req), JwtGenerate userID])
                | Inr token \<Rightarrow>
                    ((Some \<lparr>AccessToken = token\<rparr>, None),
                     [DbQuery query (Username req), JwtGenerate userID]))))"

section \<open>Concrete collaborators\<close>

text \<open>
  Small instances of the collaborators, on which the handlers can be evaluated. The store
  is a table of rows that answers a query from its first matching row, after the
  context's own error; \<open>failing_DB\<close> answers every query with a driver error.
\<close>

record user_row =
  row_id :: string
  row_username :: string
  row_password :: string

definition sql_ErrNoRows :: error where
  "sql_ErrNoRows = foreign ''sql: no rows in result set''"

definition table_DB :: "user_row list \<Rightarrow> sql_DB" where
  "table_DB rows =
     \<lparr>selectIdPassword = (\<lambda>ctx name.
        case Err ctx of
          Some err \<Rightarrow> Inl err
        | None \<Rightarrow>
            (case find (\<lambda>r. row_username r = name) rows of
               None \<Rightarrow> Inl sql_ErrNoRows
             | Some r \<Rightarrow> Inr (row_id r, row_password r))),
      selectUsername = (\<lambda>ctx uid.
        case Err ctx of
          Some err \<Rightarrow> Inl err
        | None \<Rightarrow>
            (case find (\<lambda>r. row_id r = uid) rows of
               None \<Rightarrow> Inl sql_ErrNoRows
             | Some r \<Rightarrow> Inr (row_username r)))\<rparr>"

definition failing_DB :: "string \<Rightarrow> sql_DB" where
  "failing_DB text =
     \<lparr>selectIdPassword = (\<lambda>ctx name. Inl (foreign text)),
      selectUsername = (\<lambda>ctx uid. Inl (foreign text))\<rparr>"

text \<open>
  A stand-in for bcrypt with no cryptography in it: the hash of a password is the
  password behind a fixed prefix, a string without the prefix is a malformed hash.
\<close>

definition plain_bcrypt :: bcrypt where
  "plain_bcrypt =
     \<lparr>DefaultCost = 10,
      GenerateFromPassword = (\<lambda>password cost. Inr (''$plain$'' @ password)),
      CompareHashAndPassword = (\<lambda>hashedPassword password.
        if take 7 hashedPassword \<noteq> ''$plain$''
        then Some (foreign ''crypto/bcrypt: hashedSecret too short to be a bcrypted password'')
        else if drop 7 hashedPassword = password then None
        else Some (foreign
          ''crypto/bcrypt: hashedPassword is not the hash of the given password''))\<rparr>"

text \<open>
  A JWT manager over a handful of token strings: one it accepts for subject \<open>u1\<close>, one
  whose claims have no \<open>user_id\<close>, one whose \<open>user_id\<close> is a number, one that is past
  its expiry; everything else does not parse. \<open>Generate\<close> hands out \<open>tok-\<close> and the
  subject. \<open>failing_signer\<close> verifies alike and fails every \<open>Generate\<close> with the given text.
\<close>

definition token_with :: "string \<Rightarrow> (string \<Rightarrow> any option) \<Rightarrow> jwt_Token" where
  "token_with raw claims = \<lparr>Raw = raw, Claims = MapClaims claims, Valid = True\<rparr>"

definition fixed_Verify :: "string \<Rightarrow> error + jwt_Token" where
  "fixed_Verify tokenString =
     (if tokenString = ''tok-u1''
        then Inr (token_with tokenString [''user_id'' \<mapsto> go_string ''u1''])
      else if tokenString = ''tok-nosub''
        then Inr (token_with tokenString Map.empty)
      else if tokenString = ''tok-numsub''
        then Inr (token_with tokenString [''user_id'' \<mapsto> go_float64 42])
      else if tokenString = ''tok-old'' then Inl TokenExpired
      else Inl TokenInvalid)"

definition fixed_JWTManager :: JWTManager where
  "fixed_JWTManager = \<lparr>Generate = (\<lambda>uid. Inr (''tok-'' @ uid)), Verify = fixed_Verify\<rparr>"

definition failing_signer :: "string \<Rightarrow> JWTManager" where
  "failing_signer text = \<lparr>Generate = (\<lambda>uid. Inl (foreign text)), Verify = fixed_Verify\<rparr>"

definition bearer :: "string list \<Rightarrow> Context" where
  "bearer tokens = \<lparr>Err = None, incomingMD = Some [''authorization'' \<mapsto> tokens]\<rparr>"

definition alice :: user_row where
  "alice = \<lparr>row_id = ''u1'', row_username = ''alice'', row_password = ''$plain$correct-pw''\<rparr>"

definition handler1 :: AuthHandler where
  "handler1 = \<lparr>db = table_DB [alice], jwtManager = fixed_JWTManager\<rparr>"

definition store_down :: "string \<Rightarrow> AuthHandler" where
  "store_down text = \<lparr>db = failing_DB text, jwtManager = fixed_JWTManager\<rparr>"

definition signer_down :: "string \<Rightarrow> AuthHandler" where
  "signer_down text = \<lparr>db = table_DB [alice], jwtManager = failing_signer text\<rparr>"

definition login_as :: "string \<Rightarrow> string \<Rightarrow> LoginRequest" where
  "login_as name pw = \<lparr>Username = name, Password = pw\<rparr>"

definition canceled :: Context where
  "canceled = \<lparr>Err = Some (foreign ''context canceled''), incomingMD = None\<rparr>"

section \<open>Properties\<close>

lemmas handler_defs = Login_def GetUserProfile_def validateToken_def
  extractTokenFromMetadata_def FromIncomingContext_def md_index_def assert_MapClaims_def
  claims_index_def assert_string_def checkPassword_def

lemmas part002_defs = Login_part002_def checkPassword_part002_def

lemmas collaborator_defs = handler1_def table_DB_def fixed_JWTManager_def fixed_Verify_def
  plain_bcrypt_def bearer_def alice_def token_with_def TokenInvalid_def TokenExpired_def
  sql_ErrNoRows_def failing_DB_def Background_def failing_signer_def canceled_def
  store_down_def signer_down_def login_as_def

subsection \<open>The password helpers do nothing but call bcrypt\<close>

lemma hashPassword_succeeds_iff:
  "hashPassword bc password = Inr hashedPassword
     \<longleftrightarrow> GenerateFromPassword bc password (DefaultCost bc) = Inr hashedPassword"
  by (simp add: hashPassword_def split: sum.split)

lemma hashPassword_fails_iff:
  "hashPassword bc password = Inl e
     \<longleftrightarrow> (\<exists>err. GenerateFromPassword bc password (DefaultCost bc) = Inl err
            \<and> e = fmt_Errorf ''failed to hash password: '' err)"
  by (auto simp: hashPassword_def split: sum.split)

lemma checkPassword_succeeds_iff:
  "checkPassword bc hashedPassword password = None
     \<longleftrightarrow> CompareHashAndPassword bc hashedPassword password = None"
  by (simp add: checkPassword_def split: option.split)

lemma extractTokenFromMetadata_bearer:
  "extractTokenFromMetadata (bearer (t # ts)) = Inr t"
  by (simp add: extractTokenFromMetadata_def FromIncomingContext_def md_index_def bearer_def)

lemma Verify_handler1:
  "Verify (jwtManager handler1) tokenString = fixed_Verify tokenString"
  by (simp add: handler1_def fixed_JWTManager_def)

subsection \<open>Token verification failures\<close>

text \<open>
  C1, amended. For every token string that \<open>GetUserProfile\<close> takes from the metadata and
  that the manager's \<open>Verify\<close> rejects, whatever the failure (expired, bad signature, not
  parseable), \<open>GetUserProfile\<close> returns no profile and the one error \<open>ErrInvalidToken\<close>
  ("invalid or expired token"), after the single call to \<open>Verify\<close>: \<open>validateToken\<close>
  replaces the manager's error, it does not hand it on.
\<close>

theorem GetUserProfile_collapses_Verify_failures:
  assumes "extractTokenFromMetadata ctx = Inr tokenString"
    and "Verify (jwtManager h) tokenString = Inl err"
  shows "GetUserProfile h ctx req = ((None, Some ErrInvalidToken), [JwtVerify tokenString])"
  using assms by (simp add: GetUserProfile_def validateToken_def)

theorem GetUserProfile_collapses_Verify_failures_witness:
  "extractTokenFromMetadata (bearer [''tok-old'']) = Inr ''tok-old''
   \<and> Verify (jwtManager handler1) ''tok-old'' = Inl TokenExpired
   \<and> GetUserProfile handler1 (bearer [''tok-old'']) ()
       = ((None, Some ErrInvalidToken), [JwtVerify ''tok-old''])"
proof -
  have e: "extractTokenFromMetadata (bearer [''tok-old'']) = Inr ''tok-old''"
    by (rule extractTokenFromMetadata_bearer)
  have v: "Verify (jwtManager handler1) ''tok-old'' = Inl TokenExpired"
    by (simp add: Verify_handler1 fixed_Verify_def)
  from GetUserProfile_collapses_Verify_failures [OF e v, of "()"] e v
  show ?thesis by simp
qed

text \<open>
  C1 as stated fails: the manager reports \<open>TokenExpired\<close> for one token and
  \<open>TokenInvalid\<close> for another, two different errors, and \<open>GetUserProfile\<close> returns the
  same \<open>ErrInvalidToken\<close> for both, which is neither of them.
\<close>

theorem GetUserProfile_expired_or_invalid_counterexample:
  "Verify (jwtManager handler1) ''tok-old'' = Inl TokenExpired
   \<and> Verify (jwtManager handler1) ''forged'' = Inl TokenInvalid
   \<and> TokenExpired \<noteq> TokenInvalid
   \<and> fst (GetUserProfile handler1 (bearer [''tok-old'']) ()) = (None, Some ErrInvalidToken)
   \<and> fst (GetUserProfile handler1 (bearer [''forged'']) ()) = (None, Some ErrInvalidToken)
   \<and> ErrInvalidToken \<noteq> TokenExpired"
  by (simp add: handler_defs collaborator_defs)

subsection \<open>Login failures\<close>

text \<open>
  C2. Take two \<open>Login\<close> requests: for the first the store has no answer for the username
  (the lookup fails, as it does with \<open>sql.ErrNoRows\<close> for an absent user), for the second
  the store has the user and bcrypt rejects the password. Both runs return no response
  and the same error value \<open>ErrInvalidCredentials\<close>.
\<close>

theorem Login_same_error_for_unknown_user_and_wrong_password:
  assumes "selectIdPassword (db h) ctx1 (Username req1) = Inl err1"
    and "selectIdPassword (db h) ctx2 (Username req2) = Inr (userID, hashedPassword)"
    and "CompareHashAndPassword bc hashedPassword (Password req2) = Some err2"
  shows "fst (Login bc h ctx1 req1) = (None, Some ErrInvalidCredentials)
       \<and> fst (Login bc h ctx2 req2) = (None, Some ErrInvalidCredentials)"
  using assms by (simp add: Login_def checkPassword_def)

theorem Login_same_error_for_unknown_user_and_wrong_password_witness:
  "selectIdPassword (db handler1) Background ''ghost'' = Inl sql_ErrNoRows
   \<and> selectIdPassword (db handler1) Background ''alice'' = Inr (''u1'', ''$plain$correct-pw'')
   \<and> fst (Login plain_bcrypt handler1 Background (login_as ''ghost'' ''anything''))
       = (None, Some ErrInvalidCredentials)
   \<and> fst (Login plain_bcrypt handler1 Background (login_as ''alice'' ''wrong-pw''))
       = (None, Some ErrInvalidCredentials)"
proof -
  have absent: "selectIdPassword (db handler1) Background
      (Username (login_as ''ghost'' ''anything'')) = Inl sql_ErrNoRows"
    by (simp add: collaborator_defs)
  have present: "selectIdPassword (db handler1) Background
      (Username (login_as ''alice'' ''wrong-pw'')) = Inr (''u1'', ''$plain$correct-pw'')"
    by (simp add: collaborator_defs)
  have mismatch: "CompareHashAndPassword plain_bcrypt ''$plain$correct-pw''
      (Password (login_as ''alice'' ''wrong-pw''))
      = Some (foreign ''crypto/bcrypt: hashedPassword is not the hash of the given password'')"
    by (simp add: plain_bcrypt_def login_as_def)
  from Login_same_error_for_unknown_user_and_wrong_password [OF absent present mismatch]
    absent present
  show ?thesis by (simp add: login_as_def)
qed

subsection \<open>Password comparison\<close>

text \<open>
  C5. For every stored-hash string and every password, \<open>checkPassword\<close> returns nil or
  exactly \<open>ErrInvalidCredentials\<close>; it returns nil exactly when bcrypt's comparison does;
  and whatever error the comparison gives (malformed hash, mismatch), the error returned
  is \<open>ErrInvalidCredentials\<close>.
\<close>

theorem checkPassword_folds_every_failure:
  "(checkPassword bc hashedPassword password = None
      \<or> checkPassword bc hashedPassword password = Some ErrInvalidCredentials)
   \<and> (checkPassword bc hashedPassword password = None
        \<longleftrightarrow> CompareHashAndPassword bc hashedPassword password = None)
   \<and> (\<forall>err. CompareHashAndPassword bc hashedPassword password = Some err
        \<longrightarrow> checkPassword bc hashedPassword password = Some ErrInvalidCredentials)"
  by (simp add: checkPassword_def split: option.split)

theorem checkPassword_folds_every_failure_witness:
  "CompareHashAndPassword plain_bcrypt ''not-a-hash'' ''correct-pw''
     = Some (foreign ''crypto/bcrypt: hashedSecret too short to be a bcrypted password'')
   \<and> CompareHashAndPassword plain_bcrypt ''$plain$correct-pw'' ''wrong-pw''
     = Some (foreign ''crypto/bcrypt: hashedPassword is not the hash of the given password'')
   \<and> checkPassword plain_bcrypt ''not-a-hash'' ''correct-pw'' = Some ErrInvalidCredentials
   \<and> checkPassword plain_bcrypt ''$plain$correct-pw'' ''wrong-pw'' = Some ErrInvalidCredentials
   \<and> checkPassword plain_bcrypt ''$plain$correct-pw'' ''correct-pw'' = None"
  using checkPassword_folds_every_failure [of plain_bcrypt "''not-a-hash''" "''correct-pw''"]
    checkPassword_folds_every_failure [of plain_bcrypt "''$plain$correct-pw''" "''wrong-pw''"]
    checkPassword_folds_every_failure [of plain_bcrypt "''$plain$correct-pw''" "''correct-pw''"]
  by (simp add: plain_bcrypt_def)

subsection \<open>Claim extraction\<close>

text \<open>
  C6. For every token that \<open>Verify\<close> accepts and whose claims hold no string under
  \<open>user_id\<close> (the key is absent, its value has another type, or the claims are not a
  \<open>MapClaims\<close>), \<open>GetUserProfile\<close> returns no profile and \<open>ErrInvalidTokenClaims\<close>, and the
  only call it has made is the one to \<open>Verify\<close>: the store is not queried, with no subject
  at all.
\<close>

theorem GetUserProfile_strict_user_id:
  assumes "extractTokenFromMetadata ctx = Inr tokenString"
    and "Verify (jwtManager h) tokenString = Inr token"
    and "\<not> (\<exists>claims s. Claims token = MapClaims claims
            \<and> claims ''user_id'' = Some (go_string s))"
  shows "GetUserProfile h ctx req = ((None, Some ErrInvalidTokenClaims), [JwtVerify tokenString])"
  using assms
  by (auto simp: GetUserProfile_def validateToken_def assert_MapClaims_def claims_index_def
      assert_string_def split: jwt_Claims.split option.split any.split)

theorem GetUserProfile_strict_user_id_witness:
  "extractTokenFromMetadata (bearer [''tok-nosub'']) = Inr ''tok-nosub''
   \<and> Verify (jwtManager handler1) ''tok-nosub'' = Inr (token_with ''tok-nosub'' Map.empty)
   \<and> GetUserProfile handler1 (bearer [''tok-nosub'']) ()
       = ((None, Some ErrInvalidTokenClaims), [JwtVerify ''tok-nosub''])
   \<and> extractTokenFromMetadata (bearer [''tok-numsub'']) = Inr ''tok-numsub''
   \<and> Verify (jwtManager handler1) ''tok-numsub''
       = Inr (token_with ''tok-numsub'' [''user_id'' \<mapsto> go_float64 42])
   \<and> GetUserProfile handler1 (bearer [''tok-numsub'']) ()
       = ((None, Some ErrInvalidTokenClaims), [JwtVerify ''tok-numsub''])"
proof -
  have e1: "extractTokenFromMetadata (bearer [''tok-nosub'']) = Inr ''tok-nosub''"
    by (rule extractTokenFromMetadata_bearer)
  have v1: "Verify (jwtManager handler1) ''tok-nosub'' = Inr (token_with ''tok-nosub'' Map.empty)"
    by (simp add: Verify_handler1 fixed_Verify_def)
  have c1: "\<not> (\<exists>claims s. Claims (token_with ''tok-nosub'' Map.empty) = MapClaims claims
      \<and> claims ''user_id'' = Some (go_string s))"
    by (simp add: token_with_def)
  have e2: "extractTokenFromMetadata (bearer [''tok-numsub'']) = Inr ''tok-numsub''"
    by (rule extractTokenFromMetadata_bearer)
  have v2: "Verify (jwtManager handler1) ''tok-numsub''
      = Inr (token_with ''tok-numsub'' [''user_id'' \<mapsto> go_float64 42])"
    by (simp add: Verify_handler1 fixed_Verify_def)
  have c2: "\<not> (\<exists>claims s.
      Claims (token_with ''tok-numsub'' [''user_id'' \<mapsto> go_float64 42]) = MapClaims claims
      \<and> claims ''user_id'' = Some (go_string s))"
    by (auto simp: token_with_def)
  from GetUserProfile_strict_user_id [OF e1 v1 c1, of "()"]
    GetUserProfile_strict_user_id [OF e2 v2 c2, of "()"] e1 v1 e2 v2
  show ?thesis by simp
qed

subsection \<open>Requests without a token\<close>

text \<open>
  C7, amended. For every \<open>GetUserProfile\<close> request: with no incoming metadata it fails
  with \<open>ErrMissingMetadata\<close>; with metadata that holds no value under \<open>authorization\<close>
  (the key is absent or its list of values is empty) it fails with \<open>ErrNoAuthToken\<close>; in
  both cases nothing is returned but the error and no call is made, to \<open>Verify\<close> or to
  the store. When there is a first value, whatever it is (the empty string too), it is
  the token string, and the first thing the handler does is to call \<open>Verify\<close> on it.
\<close>

theorem GetUserProfile_without_token:
  "(incomingMD ctx = None
      \<longrightarrow> GetUserProfile h ctx req = ((None, Some ErrMissingMetadata), []))
   \<and> (\<forall>md. incomingMD ctx = Some md \<and> md_index md ''authorization'' = []
      \<longrightarrow> GetUserProfile h ctx req = ((None, Some ErrNoAuthToken), []))
   \<and> (\<forall>md t ts. incomingMD ctx = Some md \<and> md_index md ''authorization'' = t # ts
      \<longrightarrow> extractTokenFromMetadata ctx = Inr t
        \<and> (\<exists>evs. snd (GetUserProfile h ctx req) = JwtVerify t # evs))"
  by (auto simp: GetUserProfile_def extractTokenFromMetadata_def FromIncomingContext_def
      validateToken_def Let_def split: sum.split prod.split if_split)

theorem GetUserProfile_without_token_witness:
  "GetUserProfile handler1 Background () = ((None, Some ErrMissingMetadata), [])
   \<and> GetUserProfile handler1 (bearer []) () = ((None, Some ErrNoAuthToken), [])
   \<and> GetUserProfile handler1 \<lparr>Err = None, incomingMD = Some Map.empty\<rparr> ()
       = ((None, Some ErrNoAuthToken), [])"
  using GetUserProfile_without_token [of Background handler1 "()"]
    GetUserProfile_without_token [of "bearer []" handler1 "()"]
    GetUserProfile_without_token
      [of "\<lparr>Err = None, incomingMD = Some Map.empty\<rparr>" handler1 "()"]
  by (simp add: Background_def bearer_def md_index_def)

text \<open>
  C7 as stated fails for an empty token value: metadata whose \<open>authorization\<close> entry is
  the one empty string passes \<open>extractTokenFromMetadata\<close>, the empty string goes to
  \<open>Verify\<close>, and the error is the manager's rejection, not \<open>ErrNoAuthToken\<close>.
\<close>

theorem GetUserProfile_empty_token_counterexample:
  "md_index (fst (FromIncomingContext (bearer ['''']))) ''authorization'' = ['''']
   \<and> snd (FromIncomingContext (bearer ['''']))
   \<and> extractTokenFromMetadata (bearer ['''']) = Inr ''''
   \<and> GetUserProfile handler1 (bearer ['''']) ()
       = ((None, Some ErrInvalidToken), [JwtVerify ''''])
   \<and> ErrInvalidToken \<noteq> ErrNoAuthToken"
  by (simp add: handler_defs collaborator_defs)

subsection \<open>Internal failures\<close>

text \<open>
  C8, amended. When the store's lookup fails in \<open>Login\<close>, the error returned is
  \<open>ErrInvalidCredentials\<close>, whatever the store's error. When the manager fails to sign in
  \<open>Login\<close>, the error returned is the manager's error wrapped behind
  "failed to generate token: "; when the store's lookup fails in \<open>GetUserProfile\<close>, it is the
  store's error wrapped behind "failed to retrieve user profile: ". The last two carry the
  internal error, text included, to the caller.
\<close>

theorem internal_failures_as_returned:
  "(\<forall>err. selectIdPassword (db h) ctx (Username req) = Inl err
      \<longrightarrow> fst (Login bc h ctx req) = (None, Some ErrInvalidCredentials))
   \<and> (\<forall>userID hashedPassword err.
        selectIdPassword (db h) ctx (Username req) = Inr (userID, hashedPassword)
        \<and> CompareHashAndPassword bc hashedPassword (Password req) = None
        \<and> Generate (jwtManager h) userID = Inl err
      \<longrightarrow> fst (Login bc h ctx req)
          = (None, Some (fmt_Errorf ''failed to generate token: '' err)))
   \<and> (\<forall>tokenString token claims userID err.
        extractTokenFromMetadata ctx' = Inr tokenString
        \<and> Verify (jwtManager h) tokenString = Inr token
        \<and> Claims token = MapClaims claims \<and> Valid token
        \<and> claims ''user_id'' = Some (go_string userID)
        \<and> selectUsername (db h) ctx' userID = Inl err
      \<longrightarrow> fst (GetUserProfile h ctx' req')
          = (None, Some (fmt_Errorf ''failed to retrieve user profile: '' err)))"
  by (simp add: handler_defs)

theorem internal_failures_as_returned_witness:
  "fst (Login plain_bcrypt (store_down ''connection refused'') Background
          (login_as ''alice'' ''correct-pw''))
     = (None, Some ErrInvalidCredentials)
   \<and> fst (Login plain_bcrypt (signer_down ''key is of invalid type'') Background
          (login_as ''alice'' ''correct-pw''))
     = (None, Some (fmt_Errorf ''failed to generate token: ''
          (foreign ''key is of invalid type'')))
   \<and> fst (GetUserProfile (store_down ''connection refused'') (bearer [''tok-u1'']) ())
     = (None, Some (fmt_Errorf ''failed to retrieve user profile: ''
          (foreign ''connection refused'')))"
  using internal_failures_as_returned [of "store_down ''connection refused''" Background
      "login_as ''alice'' ''correct-pw''" plain_bcrypt "bearer [''tok-u1'']" "()"]
    internal_failures_as_returned [of "signer_down ''key is of invalid type''" Background
      "login_as ''alice'' ''correct-pw''" plain_bcrypt "bearer [''tok-u1'']" "()"]
  by (simp add: handler_defs collaborator_defs)

text \<open>
  C8 as stated fails: two runs of \<open>GetUserProfile\<close> that differ only in the store's
  error text return different errors, whose message ends with that text; two runs of
  \<open>Login\<close> that differ only in the signing error return different errors too.
\<close>

theorem internal_detail_reaches_caller_counterexample:
  "fst (GetUserProfile (store_down ''connection refused'') (bearer [''tok-u1'']) ())
     = (None, Some (fmt_Errorf ''failed to retrieve user profile: ''
          (foreign ''connection refused'')))
   \<and> fst (GetUserProfile (store_down ''too many clients'') (bearer [''tok-u1'']) ())
     = (None, Some (fmt_Errorf ''failed to retrieve user profile: ''
          (foreign ''too many clients'')))
   \<and> fst (GetUserProfile (store_down ''connection refused'') (bearer [''tok-u1'']) ())
     \<noteq> fst (GetUserProfile (store_down ''too many clients'') (bearer [''tok-u1'']) ())
   \<and> Error (fmt_Errorf ''failed to retrieve user profile: '' (foreign ''connection refused''))
     = ''failed to retrieve user profile: connection refused''
   \<and> fst (Login plain_bcrypt (signer_down ''key is of invalid type'') Background
          (login_as ''alice'' ''correct-pw''))
     \<noteq> fst (Login plain_bcrypt (signer_down ''key is invalid'') Background
          (login_as ''alice'' ''correct-pw''))"
  by (simp add: handler_defs collaborator_defs)

subsection \<open>No partial success\<close>

text \<open>
  C9. For every input, handler and collaborator, \<open>Login\<close> returns either a response with
  a nil error or a nil response with an error, and so does \<open>GetUserProfile\<close>: never a
  token or a profile next to an error, never nil twice.
\<close>

theorem handlers_return_response_xor_error:
  "((\<exists>resp. fst (Login bc h ctx req) = (Some resp, None))
      \<or> (\<exists>err. fst (Login bc h ctx req) = (None, Some err)))
   \<and> ((\<exists>profile. fst (GetUserProfile h ctx' req') = (Some profile, None))
      \<or> (\<exists>err. fst (GetUserProfile h ctx' req') = (None, Some err)))"
proof
  show "(\<exists>resp. fst (Login bc h ctx req) = (Some resp, None))
      \<or> (\<exists>err. fst (Login bc h ctx req) = (None, Some err))"
    by (simp add: Login_def Let_def split: sum.split option.split prod.split)
  show "(\<exists>profile. fst (GetUserProfile h ctx' req') = (Some profile, None))
      \<or> (\<exists>err. fst (GetUserProfile h ctx' req') = (None, Some err))"
    by (simp add: GetUserProfile_def Let_def split: sum.split option.split prod.split)
qed

theorem handlers_return_response_xor_error_witness:
  "fst (Login plain_bcrypt handler1 Background (login_as ''alice'' ''correct-pw''))
     = (Some \<lparr>AccessToken = ''tok-u1''\<rparr>, None)
   \<and> fst (Login plain_bcrypt handler1 Background (login_as ''alice'' ''wrong-pw''))
     = (None, Some ErrInvalidCredentials)
   \<and> fst (GetUserProfile handler1 (bearer [''tok-u1'']) ())
     = (Some \<lparr>UserId = ''u1'', profile_Username = ''alice''\<rparr>, None)
   \<and> fst (GetUserProfile handler1 Background ()) = (None, Some ErrMissingMetadata)"
  using handlers_return_response_xor_error [of plain_bcrypt handler1 Background
      "login_as ''alice'' ''correct-pw''" "bearer [''tok-u1'']" "()"]
    handlers_return_response_xor_error [of plain_bcrypt handler1 Background
      "login_as ''alice'' ''wrong-pw''" Background "()"]
  by (simp add: handler_defs collaborator_defs)

subsection \<open>The two Login implementations\<close>

text \<open>
  C10, amended. When the store answers the credential query under the request's context
  as it does under the background context, \<open>Login\<close> of \<open>auth.go\<close> and \<open>Login\<close> of
  \<open>part_002\<close> return the same response (the same token, or nil in both), fail on the
  same inputs, and return equal results, error included, whenever the lookup and the
  password check pass (so also when signing fails). On a failed lookup \<open>auth.go\<close> returns
  \<open>ErrInvalidCredentials\<close> and \<open>part_002\<close> the store's error wrapped behind
  "invalid username or password: "; on a rejected password \<open>auth.go\<close> returns
  \<open>ErrInvalidCredentials\<close> and \<open>part_002\<close> a new error "invalid credentials".
\<close>

theorem Login_and_part002_agreement:
  assumes "selectIdPassword (db h) ctx (Username req)
             = selectIdPassword (db h) Background (Username req)"
  shows "fst (fst (Login bc h ctx req)) = fst (fst (Login_part002 bc h ctx req))
       \<and> (snd (fst (Login bc h ctx req)) = None
            \<longleftrightarrow> snd (fst (Login_part002 bc h ctx req)) = None)
       \<and> (\<forall>userID hashedPassword.
            selectIdPassword (db h) ctx (Username req) = Inr (userID, hashedPassword)
            \<and> CompareHashAndPassword bc hashedPassword (Password req) = None
          \<longrightarrow> fst (Login bc h ctx req) = fst (Login_part002 bc h ctx req))
       \<and> (\<forall>err. selectIdPassword (db h) ctx (Username req) = Inl err
          \<longrightarrow> fst (Login bc h ctx req) = (None, Some ErrInvalidCredentials)
            \<and> fst (Login_part002 bc h ctx req)
                = (None, Some (fmt_Errorf ''invalid username or password: '' err)))
       \<and> (\<forall>userID hashedPassword err.
            selectIdPassword (db h) ctx (Username req) = Inr (userID, hashedPassword)
            \<and> CompareHashAndPassword bc hashedPassword (Password req) = Some err
          \<longrightarrow> fst (Login bc h ctx req) = (None, Some ErrInvalidCredentials)
            \<and> fst (Login_part002 bc h ctx req)
                = (None, Some (errors_New ''invalid credentials'')))"
proof (cases "selectIdPassword (db h) ctx (Username req)")
  case (Inl err)
  moreover from Inl assms
  have "selectIdPassword (db h) Background (Username req) = Inl err"
    by simp
  ultimately show ?thesis
    by (simp add: Login_def Login_part002_def Let_def)
next
  case (Inr row)
  obtain userID hashedPassword where row: "row = (userID, hashedPassword)"
    by (cases row)
  from Inr row assms
  have bg: "selectIdPassword (db h) Background (Username req) = Inr (userID, hashedPassword)"
    by simp
  from Inr row
  have rq: "selectIdPassword (db h) ctx (Username req) = Inr (userID, hashedPassword)"
    by simp
  show ?thesis
  proof (cases "CompareHashAndPassword bc hashedPassword (Password req)")
    case None
    with bg rq show ?thesis
      by (simp add: Login_def Login_part002_def checkPassword_def checkPassword_part002_def
          Let_def split: sum.split)
  next
    case (Some err)
    with bg rq show ?thesis
      by (simp add: Login_def Login_part002_def checkPassword_def checkPassword_part002_def
          Let_def)
  qed
qed

theorem Login_and_part002_agreement_witness:
  "selectIdPassword (db handler1) (bearer [''x'']) ''alice''
     = selectIdPassword (db handler1) Background ''alice''
   \<and> fst (Login plain_bcrypt handler1 (bearer [''x'']) (login_as ''alice'' ''correct-pw''))
     = (Some \<lparr>AccessToken = ''tok-u1''\<rparr>, None)
   \<and> fst (Login_part002 plain_bcrypt handler1 (bearer [''x''])
          (login_as ''alice'' ''correct-pw''))
     = (Some \<lparr>AccessToken = ''tok-u1''\<rparr>, None)
   \<and> fst (Login plain_bcrypt handler1 (bearer [''x'']) (login_as ''alice'' ''wrong-pw''))
     = (None, Some ErrInvalidCredentials)
   \<and> fst (Login_part002 plain_bcrypt handler1 (bearer [''x''])
          (login_as ''alice'' ''wrong-pw''))
     = (None, Some (errors_New ''invalid credentials''))
   \<and> selectIdPassword (db handler1) (bearer [''x'']) ''ghost''
     = selectIdPassword (db handler1) Background ''ghost''
   \<and> fst (Login plain_bcrypt handler1 (bearer [''x'']) (login_as ''ghost'' ''anything''))
     = (None, Some ErrInvalidCredentials)
   \<and> fst (Login_part002 plain_bcrypt handler1 (bearer [''x''])
          (login_as ''ghost'' ''anything''))
     = (None, Some (fmt_Errorf ''invalid username or password: '' sql_ErrNoRows))"
proof -
  have same_ok: "selectIdPassword (db handler1) (bearer [''x''])
        (Username (login_as ''alice'' ''correct-pw''))
      = selectIdPassword (db handler1) Background (Username (login_as ''alice'' ''correct-pw''))"
    by (simp add: collaborator_defs)
  have same_wrong: "selectIdPassword (db handler1) (bearer [''x''])
        (Username (login_as ''alice'' ''wrong-pw''))
      = selectIdPassword (db handler1) Background (Username (login_as ''alice'' ''wrong-pw''))"
    by (simp add: collaborator_defs)
  have same_ghost: "selectIdPassword (db handler1) (bearer [''x''])
        (Username (login_as ''ghost'' ''anything''))
      = selectIdPassword (db handler1) Background (Username (login_as ''ghost'' ''anything''))"
    by (simp add: collaborator_defs)
  from Login_and_part002_agreement [OF same_ok, of plain_bcrypt]
    Login_and_part002_agreement [OF same_wrong, of plain_bcrypt]
    Login_and_part002_agreement [OF same_ghost, of plain_bcrypt]
  show ?thesis
    by (simp add: handler_defs part002_defs collaborator_defs)
qed

text \<open>
  C10 as stated fails. On a wrong password \<open>auth.go\<close> returns \<open>ErrInvalidCredentials\<close> and
  \<open>part_002\<close> a new error "invalid credentials"; for an unknown user \<open>auth.go\<close> returns
  \<open>ErrInvalidCredentials\<close> and \<open>part_002\<close> the store's error, wrapped; and under a cancelled
  request context \<open>auth.go\<close> fails where \<open>part_002\<close>, which queries without the context,
  returns a token.
\<close>

theorem Login_and_part002_differ_counterexample:
  "fst (Login plain_bcrypt handler1 Background (login_as ''alice'' ''wrong-pw''))
     = (None, Some ErrInvalidCredentials)
   \<and> fst (Login_part002 plain_bcrypt handler1 Background (login_as ''alice'' ''wrong-pw''))
     = (None, Some (errors_New ''invalid credentials''))
   \<and> fst (Login plain_bcrypt handler1 Background (login_as ''ghost'' ''anything''))
     = (None, Some ErrInvalidCredentials)
   \<and> fst (Login_part002 plain_bcrypt handler1 Background (login_as ''ghost'' ''anything''))
     = (None, Some (fmt_Errorf ''invalid username or password: '' sql_ErrNoRows))
   \<and> fst (Login plain_bcrypt handler1 canceled (login_as ''alice'' ''correct-pw''))
     = (None, Some ErrInvalidCredentials)
   \<and> fst (Login_part002 plain_bcrypt handler1 canceled (login_as ''alice'' ''correct-pw''))
     = (Some \<lparr>AccessToken = ''tok-u1''\<rparr>, None)"
  by (simp add: handler_defs part002_defs collaborator_defs)

end
